theory Spec2Isabelle
  imports Complex_Main
begin

section \<open>Risk-Analysis: the estimators and the classifier of risk\_core.py\<close>

text \<open>
  The module \<^verbatim>\<open>risk_core.py\<close> computes three scores of a return series (a normalised
  Shannon entropy, a normalised lagged mutual information and a Hurst exponent by
  rescaled-range analysis) and maps them to a label.

  Numbers. A Python float is modelled as a real number or the not-a-number value:
  arithmetic is exact, so rounding to 64-bit doubles is not part of the model, and the
  constants \<^verbatim>\<open>0.5\<close>, \<^verbatim>\<open>0.9\<close>, \<^verbatim>\<open>0.05\<close>, \<^verbatim>\<open>1e-12\<close> are the decimal fractions they
  denote. An ordered comparison with NaN is false, as in IEEE 754.
\<close>

subsection \<open>Floats with NaN, errors\<close>

datatype pyfloat = NaN | Fin real

text \<open>\<^verbatim>\<open>a > c\<close> and \<^verbatim>\<open>a < c\<close> for a float \<open>a\<close> and a finite constant \<open>c\<close>.\<close>

fun gt_f :: "pyfloat \<Rightarrow> real \<Rightarrow> bool" where
  "gt_f NaN c = False"
| "gt_f (Fin r) c = (r > c)"

fun lt_f :: "pyfloat \<Rightarrow> real \<Rightarrow> bool" where
  "lt_f NaN c = False"
| "lt_f (Fin r) c = (r < c)"

text \<open>The only exception the numpy calls of the module raise on numeric input.\<close>

datatype error = ValueError

subsection \<open>The classifier (lines 73 to 79 of \<^verbatim>\<open>detect_risk_factors\<close>)\<close>

text \<open>
  \<^verbatim>\<open>
    risk_flag = "latent"
    if hurst > 0.5 and H_ent > 0.9 and mi_norm < 0.05:
        risk_flag = "structural_time_bomb"
    elif hurst > 0.5 and H_ent > 0.9:
        risk_flag = "chaotic_memory"
    elif mi_norm < 0.05:
        risk_flag = "blocked_flow"
  \<close>
  The arguments are in the order of the specification: entropy, mutual information, Hurst
  exponent.
\<close>

definition classify :: "pyfloat \<Rightarrow> pyfloat \<Rightarrow> pyfloat \<Rightarrow> string" where
  "classify H_ent mi_norm hurst =
     (let risk_flag = ''latent'' in
      if gt_f hurst (5 / 10) \<and> gt_f H_ent (9 / 10) \<and> lt_f mi_norm (5 / 100)
        then ''structural_time_bomb''
      else if gt_f hurst (5 / 10) \<and> gt_f H_ent (9 / 10)
        then ''chaotic_memory''
      else if lt_f mi_norm (5 / 100)
        then ''blocked_flow''
      else risk_flag)"

subsection \<open>The numpy operations the module calls\<close>

text \<open>
  \<^verbatim>\<open>np.mean\<close> and \<^verbatim>\<open>np.std\<close> (population standard deviation, \<^verbatim>\<open>ddof = 0\<close>). On an
  empty array numpy returns NaN with a warning; every caller below that can pass an empty
  array treats that case on its own.
\<close>

definition mean :: "real list \<Rightarrow> real" where
  "mean xs = sum_list xs / real (length xs)"

definition std :: "real list \<Rightarrow> real" where
  "std xs = sqrt (mean (map (\<lambda>v. (v - mean xs)\<^sup>2) xs))"

text \<open>
  \<^verbatim>\<open>np.allclose(a, 0)\<close> with the default tolerances: \<open>|a - 0| \<le> atol + rtol * |0|\<close>,
  where \<open>atol = 1e-8\<close>.
\<close>

definition allclose0 :: "real \<Rightarrow> bool" where
  "allclose0 a = (\<bar>a\<bar> \<le> 1 / 10 ^ 8)"

text \<open>
  \<^verbatim>\<open>np.histogram(a, bins=n)\<close> for an integer \<open>n\<close>: \<open>n < 1\<close> is rejected with ValueError;
  the range is \<open>[min a, max a]\<close>, \<open>[0, 1]\<close> for an empty array and widened by a half
  on either side when \<open>min a = max a\<close>; the range is cut into \<open>n\<close> bins of equal width,
  each closed on the left and open on the right, the last one closed on both sides.
\<close>

definition outer_edges :: "real list \<Rightarrow> real \<times> real" where
  "outer_edges a =
     (if a = [] then (0, 1)
      else let first_edge = Min (set a); last_edge = Max (set a) in
        if first_edge = last_edge then (first_edge - 1 / 2, last_edge + 1 / 2)
        else (first_edge, last_edge))"

definition bin_index :: "real \<times> real \<Rightarrow> nat \<Rightarrow> real \<Rightarrow> nat" where
  "bin_index edges n v =
     (let k = nat \<lfloor>(v - fst edges) / (snd edges - fst edges) * real n\<rfloor>
      in if k = n then n - 1 else k)"

definition histogram :: "real list \<Rightarrow> int \<Rightarrow> error + nat list" where
  "histogram a bins =
     (if bins < 1 then Inl ValueError
      else let n = nat bins; edges = outer_edges a in
        Inr (map (\<lambda>i. length (filter (\<lambda>v. bin_index edges n v = i) a)) [0..<n]))"

text \<open>
  \<^verbatim>\<open>np.histogram2d(x, y, bins=(n, n))\<close>: arrays of different lengths are rejected with
  ValueError, and so is \<open>n < 1\<close>; each axis is binned as \<^verbatim>\<open>np.histogram\<close> bins it;
  the result is the matrix of the joint counts, row \<open>i\<close> for the \<open>i\<close>-th bin of \<open>x\<close>.
  \<^verbatim>\<open>ravel\<close> lays the rows out one after the other.
\<close>

definition histogram2d :: "real list \<Rightarrow> real list \<Rightarrow> int \<Rightarrow> error + nat list list" where
  "histogram2d x y bins =
     (if length x \<noteq> length y then Inl ValueError
      else if bins < 1 then Inl ValueError
      else let n = nat bins; ex = outer_edges x; ey = outer_edges y in
        Inr (map (\<lambda>i. map (\<lambda>j. length (filter (\<lambda>(u, v). bin_index ex n u = i
                                                        \<and> bin_index ey n v = j) (zip x y)))
                          [0..<n])
                 [0..<n]))"

definition ravel :: "'a list list \<Rightarrow> 'a list" where
  "ravel m = concat m"

text \<open>\<^verbatim>\<open>np.cumsum\<close>, and \<^verbatim>\<open>np.max\<close>, \<^verbatim>\<open>np.min\<close>, which raise ValueError on an empty array.\<close>

fun cumsum_from :: "real \<Rightarrow> real list \<Rightarrow> real list" where
  "cumsum_from s [] = []"
| "cumsum_from s (v # vs) = (s + v) # cumsum_from (s + v) vs"

definition cumsum :: "real list \<Rightarrow> real list" where
  "cumsum xs = cumsum_from 0 xs"

definition amax :: "real list \<Rightarrow> error + real" where
  "amax xs = (if xs = [] then Inl ValueError else Inr (Max (set xs)))"

definition amin :: "real list \<Rightarrow> error + real" where
  "amin xs = (if xs = [] then Inl ValueError else Inr (Min (set xs)))"

text \<open>
  \<^verbatim>\<open>np.linspace(start, stop, num=10)\<close>: the step is a ninth of the distance, the
  \<open>k\<close>-th point is \<open>k * step + start\<close>, and the last point is set to \<open>stop\<close>.
\<close>

definition linspace10 :: "real \<Rightarrow> real \<Rightarrow> real list" where
  "linspace10 start stop =
     (let step = (stop - start) / 9 in map (\<lambda>k. real k * step + start) [0..<9] @ [stop])"

text \<open>
  The slope \<^verbatim>\<open>np.polyfit(u, v, 1)\<close> returns first, for \<open>u\<close> and \<open>v\<close> of the same non-zero
  length: the least-squares slope when the abscissae are not all equal. When they are all
  equal to some \<open>u0 > 0\<close> the system has rank one, and the minimum-norm solution
  that \<^verbatim>\<open>lstsq\<close> returns for the column-scaled system has the slope \<open>mean v / (2 * u0)\<close>.
\<close>

definition polyfit_slope :: "real list \<Rightarrow> real list \<Rightarrow> real" where
  "polyfit_slope u v =
     (let n = real (length u);
          su = sum_list u; sv = sum_list v;
          suu = sum_list (map (\<lambda>a. a * a) u);
          suv = sum_list (map (\<lambda>(a, b). a * b) (zip u v));
          d = n * suu - su * su
      in if d \<noteq> 0 then (n * suv - su * sv) / d else mean v / (2 * mean u))"

text \<open>Python slices \<^verbatim>\<open>xs[k:]\<close> and \<^verbatim>\<open>xs[:k]\<close>: a negative bound counts from the end,
  and every bound is clipped to the list.\<close>

definition clip_index :: "nat \<Rightarrow> int \<Rightarrow> nat" where
  "clip_index n k = (if k < 0 then nat (max (int n + k) 0) else nat (min k (int n)))"

definition slice_from :: "'a list \<Rightarrow> int \<Rightarrow> 'a list" where
  "slice_from xs k = drop (clip_index (length xs) k) xs"

definition slice_upto :: "'a list \<Rightarrow> int \<Rightarrow> 'a list" where
  "slice_upto xs k = take (clip_index (length xs) k) xs"

text \<open>\<^verbatim>\<open>xs[a:b]\<close> for bounds \<open>0 \<le> a \<le> b\<close>.\<close>

definition slice :: "'a list \<Rightarrow> nat \<Rightarrow> nat \<Rightarrow> 'a list" where
  "slice xs a b = take (b - a) (drop a xs)"

subsection \<open>\<^verbatim>\<open>_shannon_entropy\<close>\<close>

text \<open>
  Lines 9 to 11, and again the nested function \<^verbatim>\<open>H\<close> of \<^verbatim>\<open>_mutual_information_norm\<close>:
  \<^verbatim>\<open>
    p = counts / counts.sum()
    p = p[p > 0]
    H = -np.sum(p * np.log2(p))
  \<close>
  When the counts sum to zero every quotient is NaN (or infinite), \<^verbatim>\<open>p > 0\<close> selects
  nothing of a NaN, and the counts being all zero there is nothing else.
\<close>

definition H :: "nat list \<Rightarrow> real" where
  "H counts =
     (let s = sum_list counts;
          p = (if s = 0 then [] else map (\<lambda>c. real c / real s) counts);
          p = filter (\<lambda>q. q > 0) p
      in - sum_list (map (\<lambda>q. q * log 2 q) p))"

text \<open>
  \<^verbatim>\<open>
    def _shannon_entropy(x, bins=30, normalize=True):
        x = np.asarray(x, dtype=float)
        if np.allclose(np.std(x), 0):
            x = x + 1e-12 * np.random.randn(*x.shape)
        counts, _ = np.histogram(x, bins=bins)
        ...
        if not normalize:
            return float(H)
        Hmax = np.log2(len(counts))
        return float(H / Hmax) if Hmax > 0 else np.nan
  \<close>
  The draws of the random generator are an argument: \<open>randn i\<close> is the draw added to the
  \<open>i\<close>-th element. The standard deviation of an empty array is NaN, which is not close
  to zero. The argument \<^verbatim>\<open>normalize\<close> is written \<open>normalise\<close>.
\<close>

definition shannon_entropy ::
    "(nat \<Rightarrow> real) \<Rightarrow> real list \<Rightarrow> int \<Rightarrow> bool \<Rightarrow> error + pyfloat" where
  "shannon_entropy randn x bins normalise =
     (let x = (if x \<noteq> [] \<and> allclose0 (std x)
               then map (\<lambda>i. x ! i + 1 / 10 ^ 12 * randn i) [0..<length x]
               else x)
      in case histogram x bins of
           Inl e \<Rightarrow> Inl e
         | Inr counts \<Rightarrow>
             if \<not> normalise then Inr (Fin (H counts))
             else let Hmax = log 2 (real (length counts)) in
               Inr (if Hmax > 0 then Fin (H counts / Hmax) else NaN))"

subsection \<open>\<^verbatim>\<open>_mutual_information_norm\<close>\<close>

text \<open>
  \<^verbatim>\<open>
    counts_x, _ = np.histogram(x, bins=bins)
    counts_y, _ = np.histogram(y, bins=bins)
    counts_xy, _, _ = np.histogram2d(x, y, bins=(bins, bins))
    Hx = H(counts_x); Hy = H(counts_y); Hxy = H(counts_xy.ravel())
    MI = Hx + Hy - Hxy
    return float(MI / Hx) if Hx > 0 else np.nan
  \<close>
\<close>

definition mutual_information_norm :: "real list \<Rightarrow> real list \<Rightarrow> int \<Rightarrow> error + pyfloat" where
  "mutual_information_norm x y bins =
     (case histogram x bins of
        Inl e \<Rightarrow> Inl e
      | Inr counts_x \<Rightarrow>
     (case histogram y bins of
        Inl e \<Rightarrow> Inl e
      | Inr counts_y \<Rightarrow>
     (case histogram2d x y bins of
        Inl e \<Rightarrow> Inl e
      | Inr counts_xy \<Rightarrow>
          let Hx = H counts_x; Hy = H counts_y; Hxy = H (ravel counts_xy);
              MI = Hx + Hy - Hxy
          in Inr (if Hx > 0 then Fin (MI / Hx) else NaN))))"

subsection \<open>\<^verbatim>\<open>_hurst_exponent_rs\<close>\<close>

text \<open>
  Line 42, the window sizes:
  \<^verbatim>\<open>
    sizes = np.floor(np.logspace(np.log10(min_window), np.log10(max_window), num=10)).astype(int)
  \<close>
  \<^verbatim>\<open>np.logspace\<close> raises 10 to the points of \<^verbatim>\<open>np.linspace\<close>. When \<open>max_window\<close> is zero
  (a series shorter than two) its logarithm is minus infinity: the first point is NaN,
  the others are minus infinity, so the sizes are the cast of NaN to an integer (the
  least 64-bit integer on x86-64) followed by nine zeros. When \<open>min_window\<close> is not
  positive its logarithm is minus infinity or NaN: every point but the last is NaN, and
  the last is \<open>log10 max_window\<close>.
\<close>

definition int_min :: int where
  "int_min = - (2 ^ 63)"

definition window_sizes :: "int \<Rightarrow> nat \<Rightarrow> int list" where
  "window_sizes min_window max_window =
     (if 1 \<le> min_window \<and> 1 \<le> max_window then
        map (\<lambda>e. \<lfloor>10 powr e\<rfloor>)
            (linspace10 (log 10 (real_of_int min_window)) (log 10 (real max_window)))
      else if 1 \<le> min_window then int_min # replicate 9 0
      else replicate 9 int_min @ [int max_window])"

text \<open>
  The body of the inner loop, for one segment:
  \<^verbatim>\<open>
    Y = np.cumsum(seg - np.mean(seg))
    R = np.max(Y) - np.min(Y)
    S = np.std(seg)
    if S > 0:
        rs_vals.append(R / S)
  \<close>
  The result is the list of the values appended (one or none).
\<close>

definition segment_rs :: "real list \<Rightarrow> error + real list" where
  "segment_rs seg =
     (let Y = cumsum (map (\<lambda>v. v - mean seg) seg) in
      case amax Y of
        Inl e \<Rightarrow> Inl e
      | Inr mx \<Rightarrow>
     (case amin Y of
        Inl e \<Rightarrow> Inl e
      | Inr mn \<Rightarrow>
          let R = mx - mn; S = std seg in
          Inr (if S > 0 then [R / S] else [])))"

text \<open>The inner loop \<^verbatim>\<open>for i in range(n_seg)\<close> over \<^verbatim>\<open>seg = x[i*w:(i+1)*w]\<close>.\<close>

fun segment_loop :: "real list \<Rightarrow> nat \<Rightarrow> nat list \<Rightarrow> real list \<Rightarrow> error + real list" where
  "segment_loop x w [] rs_vals = Inr rs_vals"
| "segment_loop x w (i # is) rs_vals =
     (case segment_rs (slice x (i * w) ((i + 1) * w)) of
        Inl e \<Rightarrow> Inl e
      | Inr r \<Rightarrow> segment_loop x w is (rs_vals @ r))"

text \<open>
  The outer loop, lines 45 to 58:
  \<^verbatim>\<open>
    for w in sizes:
        if w < 2:
            continue
        n_seg = N // w
        rs_vals = []
        for i in range(n_seg): ...
        if rs_vals:
            RS.append((w, np.mean(rs_vals)))
  \<close>
\<close>

fun window_loop ::
    "real list \<Rightarrow> int list \<Rightarrow> (int \<times> real) list \<Rightarrow> error + (int \<times> real) list" where
  "window_loop x [] RS = Inr RS"
| "window_loop x (w # sizes) RS =
     (if w < 2 then window_loop x sizes RS
      else let N = int (length x); n_seg = N div w in
        case segment_loop x (nat w) [0..<nat n_seg] [] of
          Inl e \<Rightarrow> Inl e
        | Inr rs_vals \<Rightarrow>
            if rs_vals \<noteq> [] then window_loop x sizes (RS @ [(w, mean rs_vals)])
            else window_loop x sizes RS)"

text \<open>
  \<^verbatim>\<open>
    x = x - np.mean(x)
    N = len(x)
    max_window = N // 2
    sizes = ...
    ...
    if not RS:
        return np.nan
    w_arr, rs_arr = zip(*RS)
    H, _ = np.polyfit(np.log(w_arr), np.log(rs_arr), 1)
    return float(H)
  \<close>
\<close>

definition hurst_exponent_rs :: "real list \<Rightarrow> int \<Rightarrow> error + pyfloat" where
  "hurst_exponent_rs x min_window =
     (let x = map (\<lambda>v. v - mean x) x;
          N = length x;
          max_window = N div 2;
          sizes = window_sizes min_window max_window
      in case window_loop x sizes [] of
           Inl e \<Rightarrow> Inl e
         | Inr RS \<Rightarrow>
             if RS = [] then Inr NaN
             else Inr (Fin (polyfit_slope (map (\<lambda>(w, rs). ln (real_of_int w)) RS)
                                          (map (\<lambda>(w, rs). ln rs) RS))))"

subsection \<open>\<^verbatim>\<open>detect_risk_factors\<close>\<close>

record result =
  entropy :: pyfloat
  mi_norm :: pyfloat
  hurst :: pyfloat
  risk_flag :: string

text \<open>
  \<^verbatim>\<open>
    def detect_risk_factors(returns, bins=30, mi_lag=1):
        H_ent = _shannon_entropy(returns, bins=bins, normalize=True)
        mi_norm = _mutual_information_norm(returns[mi_lag:], returns[:-mi_lag], bins=bins)
        hurst = _hurst_exponent_rs(returns)
        ...
  \<close>
  \<^verbatim>\<open>_hurst_exponent_rs\<close> is called without \<open>min_window\<close>, so with its default 16.
\<close>

definition detect_risk_factors ::
    "(nat \<Rightarrow> real) \<Rightarrow> real list \<Rightarrow> int \<Rightarrow> int \<Rightarrow> error + result" where
  "detect_risk_factors randn returns bins mi_lag =
     (case shannon_entropy randn returns bins True of
        Inl e \<Rightarrow> Inl e
      | Inr H_ent \<Rightarrow>
     (case mutual_information_norm (slice_from returns mi_lag)
                                   (slice_upto returns (- mi_lag)) bins of
        Inl e \<Rightarrow> Inl e
      | Inr mi \<Rightarrow>
     (case hurst_exponent_rs returns 16 of
        Inl e \<Rightarrow> Inl e
      | Inr hu \<Rightarrow>
          Inr \<lparr>entropy = H_ent, mi_norm = mi, hurst = hu,
               risk_flag = classify H_ent mi hu\<rparr>)))"

subsection \<open>The loops of \<^verbatim>\<open>_hurst_exponent_rs\<close> as functions of the series\<close>

text \<open>
  What the loops compute, without the accumulators: the values one segment appends, the
  list \<^verbatim>\<open>rs_vals\<close> of a window size, the entry a window size adds to \<^verbatim>\<open>RS\<close>, and the
  sizes for which the body of the outer loop runs (those the \<^verbatim>\<open>continue\<close> does not skip),
  in the order and with the multiplicity of \<^verbatim>\<open>sizes\<close>.
\<close>

definition segment_values :: "real list \<Rightarrow> real list" where
  "segment_values seg =
     (let Y = cumsum (map (\<lambda>v. v - mean seg) seg) in
      if std seg > 0 then [(Max (set Y) - Min (set Y)) / std seg] else [])"

definition rs_vals_of :: "real list \<Rightarrow> nat \<Rightarrow> real list" where
  "rs_vals_of x w =
     concat (map (\<lambda>i. segment_values (slice x (i * w) ((i + 1) * w))) [0..<length x div w])"

definition window_entry :: "real list \<Rightarrow> int \<Rightarrow> (int \<times> real) list" where
  "window_entry x w =
     (if rs_vals_of x (nat w) \<noteq> [] then [(w, mean (rs_vals_of x (nat w)))] else [])"

definition processed_sizes :: "int \<Rightarrow> nat \<Rightarrow> int list" where
  "processed_sizes min_window N = filter (\<lambda>w. \<not> w < 2) (window_sizes min_window (N div 2))"

subsection \<open>The normalised mutual information, as the specification words it\<close>







section \<open>Properties of the classifier\<close>

text \<open>
  C1. For every triple of real scores (entropy \<open>e\<close>, mutual information \<open>m\<close>, Hurst
  exponent \<open>h\<close>) the classifier gives exactly one of the four labels, chosen by the first
  matching rule with strict comparisons: \<open>structural_time_bomb\<close> when \<open>h > 0.5\<close>,
  \<open>e > 0.9\<close> and \<open>m < 0.05\<close>; otherwise \<open>chaotic_memory\<close> when \<open>h > 0.5\<close> and \<open>e > 0.9\<close>;
  otherwise \<open>blocked_flow\<close> when \<open>m < 0.05\<close>; otherwise \<open>latent\<close>. The three sample
  triples of the specification get the labels it lists.
\<close>

theorem classify_first_match:
  fixes e m h :: real
  shows "classify (Fin e) (Fin m) (Fin h) =
           (if h > 0.5 \<and> e > 0.9 \<and> m < 0.05 then ''structural_time_bomb''
            else if h > 0.5 \<and> e > 0.9 then ''chaotic_memory''
            else if m < 0.05 then ''blocked_flow''
            else ''latent'')
       \<and> (classify (Fin e) (Fin m) (Fin h) = ''structural_time_bomb''
            \<longleftrightarrow> h > 0.5 \<and> e > 0.9 \<and> m < 0.05)
       \<and> (classify (Fin e) (Fin m) (Fin h) = ''chaotic_memory''
            \<longleftrightarrow> h > 0.5 \<and> e > 0.9 \<and> \<not> m < 0.05)
       \<and> (classify (Fin e) (Fin m) (Fin h) = ''blocked_flow''
            \<longleftrightarrow> \<not> (h > 0.5 \<and> e > 0.9) \<and> m < 0.05)
       \<and> (classify (Fin e) (Fin m) (Fin h) = ''latent''
            \<longleftrightarrow> \<not> (h > 0.5 \<and> e > 0.9) \<and> \<not> m < 0.05)
       \<and> classify (Fin 0.95) (Fin 0.01) (Fin 0.6) = ''structural_time_bomb''
       \<and> classify (Fin 0.95) (Fin 0.01) (Fin 0.4) = ''blocked_flow''
       \<and> classify (Fin 0.2) (Fin 0.3) (Fin 0.2) = ''latent''"
  by (simp add: classify_def)

text \<open>
  C2. The classifier is total on floats, NaN included: a comparison of NaN with a
  threshold is false, so a NaN score fails every condition it occurs in (a NaN entropy
  or Hurst exponent excludes \<open>structural_time_bomb\<close> and \<open>chaotic_memory\<close>, a NaN mutual
  information excludes \<open>structural_time_bomb\<close> and \<open>blocked_flow\<close>), three NaN scores
  give \<open>latent\<close>, and the result is always one of the four labels, never an error.
\<close>

theorem classify_nan:
  "\<not> gt_f NaN c \<and> \<not> lt_f NaN c
   \<and> classify NaN m h \<noteq> ''structural_time_bomb'' \<and> classify NaN m h \<noteq> ''chaotic_memory''
   \<and> classify e m NaN \<noteq> ''structural_time_bomb'' \<and> classify e m NaN \<noteq> ''chaotic_memory''
   \<and> classify e NaN h \<noteq> ''structural_time_bomb'' \<and> classify e NaN h \<noteq> ''blocked_flow''
   \<and> classify NaN NaN NaN = ''latent''
   \<and> classify e m h \<in> {''latent'', ''blocked_flow'', ''chaotic_memory'', ''structural_time_bomb''}"
  by (simp add: classify_def)

section \<open>Histograms and the entropy of their counts\<close>

lemma outer_edges_lt: "fst (outer_edges a) < snd (outer_edges a)"
  by (cases "a = []") (auto simp: outer_edges_def Let_def intro: order.not_eq_order_implies_strict)

lemma outer_edges_bounds:
  assumes "v \<in> set a"
  shows "fst (outer_edges a) \<le> v \<and> v \<le> snd (outer_edges a)"
proof -
  have ne: "a \<noteq> []" using assms by auto
  have "Min (set a) \<le> v" "v \<le> Max (set a)" using assms by auto
  then show ?thesis using ne by (auto simp: outer_edges_def Let_def)
qed

lemma bin_index_less:
  assumes "0 < n" "fst e < snd e" "v \<le> snd e"
  shows "bin_index e n v < n"
proof -
  have "(v - fst e) / (snd e - fst e) \<le> 1" using assms by (simp add: divide_le_eq)
  then have "(v - fst e) / (snd e - fst e) * real n \<le> real n"
    using assms(1) mult_right_mono[of "(v - fst e) / (snd e - fst e)" 1 "real n"] by simp
  then have "\<lfloor>(v - fst e) / (snd e - fst e) * real n\<rfloor> \<le> int n"
    by (simp add: floor_le_iff)
  then have "nat \<lfloor>(v - fst e) / (snd e - fst e) * real n\<rfloor> \<le> n" by linarith
  then show ?thesis using assms(1) by (auto simp: bin_index_def Let_def)
qed

lemma sum_counts:
  "(\<forall>v\<in>set a. f v < n) \<Longrightarrow>
   sum_list (map (\<lambda>i. length (filter (\<lambda>v. f v = i) a)) [0..<(n::nat)]) = length a"
proof (induction a)
  case Nil
  then show ?case by simp
next
  case (Cons v a)
  have "sum_list (map (\<lambda>i. length (filter (\<lambda>v. f v = i) (v # a))) [0..<n])
      = sum_list (map (\<lambda>i. (if f v = i then 1 else 0) + length (filter (\<lambda>v. f v = i) a)) [0..<n])"
    by (rule arg_cong[where f=sum_list], rule map_cong) auto
  also have "\<dots> = sum_list (map (\<lambda>i. if f v = i then 1 else 0) [0..<n]) 
                 + sum_list (map (\<lambda>i. length (filter (\<lambda>v. f v = i) a)) [0..<n])"
    by (simp add: sum_list_addf)
  also have "sum_list (map (\<lambda>i. if f v = i then 1 else 0) [0..<n]) = (1::nat)"
    using Cons.prems by (simp add: interv_sum_list_conv_sum_set_nat)
  finally show ?case using Cons by simp
qed

lemma histogram_Inr:
  "1 \<le> bins \<Longrightarrow> \<exists>cs. histogram a bins = Inr cs \<and> length cs = nat bins \<and> sum_list cs = length a"
  unfolding histogram_def Let_def
  by (simp add: sum_counts bin_index_less outer_edges_lt outer_edges_bounds)














section \<open>Where the estimators raise\<close>

lemma error_eq: "(e::error) = ValueError"
  by (cases e) simp

lemma histogram_Inl: "bins < 1 \<Longrightarrow> histogram a bins = Inl ValueError"
  by (simp add: histogram_def)

lemma shannon_entropy_Inl: "bins < 1 \<Longrightarrow> shannon_entropy randn x bins nf = Inl ValueError"
  by (simp add: shannon_entropy_def Let_def histogram_Inl)

lemma shannon_entropy_Inr:
  assumes "1 \<le> bins"
  shows "\<exists>r. shannon_entropy randn x bins nf = Inr r"
proof -
  define x' where "x' = (if x \<noteq> [] \<and> allclose0 (std x)
               then map (\<lambda>i. x ! i + 1 / 10 ^ 12 * randn i) [0..<length x]
               else x)"
  obtain cs where cs: "histogram x' bins = Inr cs"
    using histogram_Inr[OF assms, of x'] by auto
  show ?thesis
    using cs by (simp add: shannon_entropy_def x'_def[symmetric] Let_def)
qed

lemma shannon_entropy_one_bin: "shannon_entropy randn x 1 True = Inr NaN"
proof -
  define x' where "x' = (if x \<noteq> [] \<and> allclose0 (std x)
               then map (\<lambda>i. x ! i + 1 / 10 ^ 12 * randn i) [0..<length x]
               else x)"
  obtain cs where cs: "histogram x' 1 = Inr cs" "length cs = nat 1"
    using histogram_Inr[of 1 x'] by auto
  show ?thesis
    using cs by (simp add: shannon_entropy_def x'_def[symmetric] Let_def)
qed

lemma histogram2d_length: "length x \<noteq> length y \<Longrightarrow> histogram2d x y bins = Inl ValueError"
  by (simp add: histogram2d_def)

lemma mutual_information_norm_length:
  "length x \<noteq> length y \<Longrightarrow> mutual_information_norm x y bins = Inl ValueError"
  by (cases "histogram x bins"; cases "histogram y bins")
     (auto simp: mutual_information_norm_def histogram2d_length error_eq)

lemma slice_from_0: "slice_from xs 0 = xs"
  by (simp add: slice_from_def clip_index_def)

lemma slice_upto_0: "slice_upto xs 0 = []"
  by (simp add: slice_upto_def clip_index_def)


lemma shannon_entropy_le_one_bin:
  "bins \<le> 1 \<Longrightarrow>
   shannon_entropy randn x bins True = (if bins = 1 then Inr NaN else Inl ValueError)"
  by (cases "bins = 1") (simp_all add: shannon_entropy_one_bin shannon_entropy_Inl)

lemma detect_lag0_raises:
  assumes ne: "returns \<noteq> []"
  shows "detect_risk_factors randn returns bins 0 = Inl ValueError"
proof -
  have mi: "mutual_information_norm returns [] bins = Inl ValueError"
    using ne by (simp add: mutual_information_norm_length)
  show ?thesis
  proof (cases "bins < 1")
    case True
    then show ?thesis by (simp add: detect_risk_factors_def shannon_entropy_Inl)
  next
    case False
    then obtain r where "shannon_entropy randn returns bins True = Inr r"
      using shannon_entropy_Inr[of bins randn returns True] by auto
    then show ?thesis
      using mi by (simp add: detect_risk_factors_def slice_from_0 slice_upto_0)
  qed
qed

section \<open>Properties of the entropy estimator\<close>



text \<open>
  C9, as the code has it. With normalisation and one bin the estimator returns NaN for
  every sample and does not raise: the denominator \<open>log2 1\<close> is zero and the guard
  \<^verbatim>\<open>if Hmax > 0\<close> answers NaN. With a bin count below one there is no histogram:
  \<^verbatim>\<open>np.histogram\<close> raises ValueError before any entropy is computed.
\<close>

theorem shannon_entropy_bins_le_one:
  "bins \<le> 1 \<Longrightarrow>
   shannon_entropy randn x bins True = (if bins = 1 then Inr NaN else Inl ValueError)"
  by (rule shannon_entropy_le_one_bin)

theorem shannon_entropy_bins_le_one_witness:
  "(1::int) \<le> 1 \<and> shannon_entropy (\<lambda>i. 0) [1, 2, 3] 1 True = Inr NaN"
  using shannon_entropy_bins_le_one[of 1 "\<lambda>i. 0" "[1, 2, 3]"] by simp

text \<open>
  The claim C9 as it is stated (NaN and no exception for every bin count up to one) fails
  for the bin count zero: the call raises.
\<close>

theorem shannon_entropy_zero_bins_raises:
  "shannon_entropy (\<lambda>i. 0) [1, 2] 0 True = Inl ValueError"
  by (simp add: shannon_entropy_Inl)

section \<open>Properties of the entry point\<close>

text \<open>
  C10, as the code has it. With \<open>mi_lag = 0\<close> the first argument of the mutual
  information is the whole series (\<^verbatim>\<open>returns[0:]\<close>) and the second is empty
  (\<^verbatim>\<open>returns[:-0]\<close> is \<^verbatim>\<open>returns[:0]\<close>). For a non-empty series the two lengths differ,
  \<^verbatim>\<open>np.histogram2d\<close> raises ValueError, and \<^verbatim>\<open>detect_risk_factors\<close> raises with it:
  there is no result record, hence no mutual-information field and no flag.
\<close>

theorem detect_risk_factors_lag0:
  "returns \<noteq> [] \<Longrightarrow>
   slice_from returns 0 = returns \<and> slice_upto returns (- 0) = [] \<and>
   detect_risk_factors randn returns bins 0 = Inl ValueError"
  by (simp add: detect_lag0_raises slice_from_0 slice_upto_0)

theorem detect_risk_factors_lag0_witness:
  "[1, 2, 3] \<noteq> ([] :: real list) \<and>
   slice_from [1, 2, 3 :: real] 0 = [1, 2, 3] \<and> slice_upto [1, 2, 3 :: real] (- 0) = [] \<and>
   detect_risk_factors (\<lambda>i. 0) [1, 2, 3] 1 0 = Inl ValueError"
  using detect_risk_factors_lag0[of "[1, 2, 3]" "\<lambda>i. 0" 1] by simp

text \<open>
  The claim C10 as it is stated (a result whose mutual-information field is NaN) fails:
  for the series 1, 2, 3 with 30 bins and lag 0 the call returns no record.
\<close>

theorem detect_risk_factors_lag0_no_record:
  "detect_risk_factors (\<lambda>i. 0) [1, 2, 3] 30 0 = Inl ValueError"
  by (simp add: detect_lag0_raises)

section \<open>The mutual information estimator against its specification\<close>















section \<open>Affine transforms of the inputs of the mutual information\<close>






















section \<open>Properties of the mutual information estimator\<close>






section \<open>The loops of the Hurst estimator\<close>

lemma length_cumsum_from: "length (cumsum_from s xs) = length xs"
  by (induction xs arbitrary: s) auto

lemma cumsum_eq_Nil: "cumsum xs = [] \<longleftrightarrow> xs = []"
  using length_cumsum_from[of 0 xs] by (auto simp: cumsum_def)

lemma segment_rs_nonempty:
  "seg \<noteq> [] \<Longrightarrow> segment_rs seg = Inr (segment_values seg)"
  by (simp add: segment_rs_def segment_values_def amax_def amin_def cumsum_eq_Nil Let_def)

lemma slice_length:
  "(i + 1) * w \<le> length x \<Longrightarrow> length (slice x (i * w) ((i + 1) * w)) = w"
  by (simp add: slice_def)

lemma segment_full:
  assumes "i < length x div w" "0 < w"
  shows "length (slice x (i * w) ((i + 1) * w)) = w"
proof -
  have "Suc i \<le> length x div w" using assms(1) by simp
  then have "Suc i * w \<le> length x" using assms(2) by (simp add: less_eq_div_iff_mult_less_eq)
  then show ?thesis by (simp add: slice_def)
qed

lemma segment_loop_char:
  assumes "0 < w"
  shows "(\<forall>i\<in>set is. i < length x div w) \<Longrightarrow>
     segment_loop x w is acc
       = Inr (acc @ concat (map (\<lambda>i. segment_values (slice x (i * w) ((i + 1) * w))) is))"
proof (induction "is" arbitrary: acc)
  case Nil
  then show ?case by simp
next
  case (Cons i "is")
  have "length (slice x (i * w) ((i + 1) * w)) = w"
    using Cons.prems assms by (intro segment_full) auto
  then have "slice x (i * w) ((i + 1) * w) \<noteq> []" using assms by auto
  then have "segment_rs (slice x (i * w) ((i + 1) * w))
           = Inr (segment_values (slice x (i * w) ((i + 1) * w)))"
    by (rule segment_rs_nonempty)
  then show ?case using Cons by simp
qed

lemma segment_loop_all:
  "0 < w \<Longrightarrow> segment_loop x w [0..<length x div w] [] = Inr (rs_vals_of x w)"
  by (simp add: segment_loop_char rs_vals_of_def)

lemma window_loop_char:
  "window_loop x sizes RS
     = Inr (RS @ concat (map (window_entry x) (filter (\<lambda>w. \<not> w < 2) sizes)))"
proof (induction sizes arbitrary: RS)
  case Nil
  then show ?case by simp
next
  case (Cons w sizes)
  show ?case
  proof (cases "w < 2")
    case True
    then show ?thesis using Cons by simp
  next
    case False
    then have w: "0 < nat w" by simp
    have n: "nat (int (length x) div w) = length x div nat w"
      using False by (simp add: nat_div_distrib)
    have "segment_loop x (nat w) [0..<nat (int (length x) div w)] [] = Inr (rs_vals_of x (nat w))"
      unfolding n using w by (rule segment_loop_all)
    then show ?thesis using False Cons by (simp add: window_entry_def Let_def)
  qed
qed

lemma hurst_char:
  "hurst_exponent_rs x min_window =
     (let x' = map (\<lambda>v. v - mean x) x;
          RS = concat (map (window_entry x') (processed_sizes min_window (length x)))
      in if RS = [] then Inr NaN
         else Inr (Fin (polyfit_slope (map (\<lambda>(w, rs). ln (real_of_int w)) RS)
                                      (map (\<lambda>(w, rs). ln rs) RS))))"
  unfolding hurst_exponent_rs_def Let_def window_loop_char processed_sizes_def
  by (simp only: sum.case append_Nil length_map)

text \<open>
  Every value the loops put into \<^verbatim>\<open>RS\<close> is positive: a segment whose standard deviation
  is not zero has cumulative deviations that are not all equal, so its range is not zero.
  The logarithms that go into the fit are therefore those of positive numbers.
\<close>

lemma cumsum_from_last: "d \<noteq> [] \<Longrightarrow> last (cumsum_from s d) = s + sum_list d"
proof (induction d arbitrary: s)
  case Nil
  then show ?case by simp
next
  case (Cons v d)
  show ?case
  proof (cases "d = []")
    case True
    then show ?thesis by simp
  next
    case False
    then have "cumsum_from (s + v) d \<noteq> []" using length_cumsum_from[of "s + v" d] by auto
    then show ?thesis using Cons.IH[OF False, of "s + v"] by simp
  qed
qed

lemma cumsum_from_const:
  "(\<forall>y\<in>set (cumsum_from s d). y = s) \<Longrightarrow> (\<forall>v\<in>set d. v = 0)"
proof (induction d arbitrary: s)
  case Nil
  then show ?case by simp
next
  case (Cons v d)
  then have v: "v = 0" by simp
  then have "\<forall>y\<in>set (cumsum_from s d). y = s" using Cons.prems by simp
  then show ?case using Cons.IH v by simp
qed

lemma deviations_sum:
  assumes "seg \<noteq> []"
  shows "sum_list (map (\<lambda>v. v - mean seg) seg) = 0"
proof -
  have "sum_list (map (\<lambda>v. v - c) seg) = sum_list seg - real (length seg) * c" for c
    by (induction seg) (auto simp: algebra_simps)
  then show ?thesis using assms by (simp add: mean_def)
qed

lemma std_zero_deviations:
  assumes "\<forall>v\<in>set seg. v - mean seg = 0"
  shows "std seg = 0"
proof -
  have "map (\<lambda>v. (v - mean seg)\<^sup>2) seg = map (\<lambda>v. 0) seg"
    using assms by (intro map_cong) auto
  then have "sum_list (map (\<lambda>v. (v - mean seg)\<^sup>2) seg) = 0"
    by (simp only: sum_list_0) 
  then show ?thesis by (simp only: std_def mean_def[of "map (\<lambda>v. (v - mean seg)\<^sup>2) seg"]) simp
qed

lemma range_pos:
  assumes "0 < std seg"
  shows "Min (set (cumsum (map (\<lambda>v. v - mean seg) seg)))
       < Max (set (cumsum (map (\<lambda>v. v - mean seg) seg)))"
proof (rule ccontr)
  let ?d = "map (\<lambda>v. v - mean seg) seg"
  let ?Y = "cumsum ?d"
  assume "\<not> Min (set ?Y) < Max (set ?Y)"
  have ne: "seg \<noteq> []" using assms by (auto simp: std_def mean_def)
  then have Yne: "?Y \<noteq> []" by (simp add: cumsum_eq_Nil)
  have "Min (set ?Y) \<le> Max (set ?Y)" using Yne by simp
  then have eq: "Min (set ?Y) = Max (set ?Y)" using \<open>\<not> Min (set ?Y) < Max (set ?Y)\<close> by simp
  have all: "y = Max (set ?Y)" if "y \<in> set ?Y" for y
  proof -
    have "Min (set ?Y) \<le> y" "y \<le> Max (set ?Y)" using that by auto
    then show ?thesis using eq by simp
  qed
  have "last ?Y = 0" using cumsum_from_last[of ?d 0] ne deviations_sum[OF ne] by (simp add: cumsum_def)
  moreover have "last ?Y \<in> set ?Y" using Yne by simp
  ultimately have "Max (set ?Y) = 0" using all by metis
  then have "\<forall>y\<in>set (cumsum_from 0 ?d). y = 0" using all by (simp add: cumsum_def)
  then have "\<forall>v\<in>set ?d. v = 0" by (rule cumsum_from_const)
  then have "\<forall>v\<in>set seg. v - mean seg = 0" by simp
  then have "std seg = 0" by (rule std_zero_deviations)
  then show False using assms by simp
qed

lemma segment_values_pos: "r \<in> set (segment_values seg) \<Longrightarrow> 0 < r"
  using range_pos[of seg] by (auto simp: segment_values_def Let_def split: if_splits)

lemma rs_vals_of_pos: "r \<in> set (rs_vals_of x w) \<Longrightarrow> 0 < r"
  by (auto simp: rs_vals_of_def segment_values_pos)

lemma mean_pos:
  assumes "xs \<noteq> []" "\<forall>r\<in>set xs. 0 < r"
  shows "0 < mean xs"
proof -
  have "0 < sum_list xs" using assms by (induction xs) (auto simp: add_pos_nonneg sum_list_nonneg less_imp_le)
  then show ?thesis using assms(1) by (simp add: mean_def)
qed

lemma window_entry_pos: "(w, rs) \<in> set (window_entry x w') \<Longrightarrow> 0 < rs"
  by (auto simp: window_entry_def mean_pos rs_vals_of_pos split: if_splits)

section \<open>The window sizes\<close>










section \<open>When the Hurst estimator returns NaN\<close>

lemma std_const:
  assumes "\<forall>v\<in>set xs. v = c"
  shows "std xs = 0"
proof (cases "xs = []")
  case True
  then show ?thesis by (simp add: std_def mean_def)
next
  case False
  have xs: "xs = replicate (length xs) c"
    using assms by (simp add: replicate_length_same)
  have "sum_list xs = real (length xs) * c"
    by (subst xs) (simp add: sum_list_replicate)
  then have m: "mean xs = c" using False by (simp add: mean_def)
  have "map (\<lambda>v. (v - mean xs)\<^sup>2) xs = replicate (length xs) 0"
    unfolding m by (subst xs) (simp add: map_replicate)
  then show ?thesis by (simp add: std_def mean_def sum_list_replicate)
qed

lemma set_slice: "set (slice xs a b) \<subseteq> set xs"
  unfolding slice_def using set_take_subset set_drop_subset by fast

lemma concat_map_Nil: "(\<forall>w\<in>set ws. f w = []) \<Longrightarrow> concat (map f ws) = []"
  by (induction ws) auto

lemma hurst_no_valid_segment:
  assumes "\<forall>w\<in>set (window_sizes min_window (length x div 2)). 2 \<le> w \<longrightarrow>
            (\<forall>i<length x div nat w.
               std (slice (map (\<lambda>v. v - mean x) x) (i * nat w) ((i + 1) * nat w)) = 0)"
  shows "hurst_exponent_rs x min_window = Inr NaN"
proof -
  let ?x = "map (\<lambda>v. v - mean x) x"
  have "window_entry ?x w = []" if "w \<in> set (processed_sizes min_window (length x))" for w
  proof -
    from that have w: "w \<in> set (window_sizes min_window (length x div 2))" "2 \<le> w"
      by (auto simp: processed_sizes_def)
    have "segment_values (slice ?x (i * nat w) ((i + 1) * nat w)) = []"
      if "i \<in> set [0..<length ?x div nat w]" for i
      using assms w that by (simp add: segment_values_def Let_def)
    then have "rs_vals_of ?x (nat w) = []"
      unfolding rs_vals_of_def by (intro concat_map_Nil) blast
    then show ?thesis by (simp add: window_entry_def)
  qed
  then have "concat (map (window_entry ?x) (processed_sizes min_window (length x))) = []"
    by (intro concat_map_Nil) blast
  then show ?thesis by (simp add: hurst_char Let_def)
qed




lemma hurst_constant: "hurst_exponent_rs [3, 3, 3, 3] 16 = Inr NaN"
proof (rule hurst_no_valid_segment)
  have c: "map (\<lambda>v. v - mean [3, 3, 3, 3]) [3, 3, 3, 3] = [0, 0, 0, 0]"
    by (simp add: mean_def)
  have "std (slice [0, 0, 0, 0] a b) = 0" for a b
    using set_slice[of "[0, 0, 0, 0]" a b] by (intro std_const[of _ 0]) auto
  then show "\<forall>w\<in>set (window_sizes 16 (length [3, 3, 3, 3 :: real] div 2)). 2 \<le> w \<longrightarrow>
            (\<forall>i<length [3, 3, 3, 3 :: real] div nat w.
               std (slice (map (\<lambda>v. v - mean [3, 3, 3, 3]) [3, 3, 3, 3]) (i * nat w) ((i + 1) * nat w)) = 0)"
    unfolding c by simp
qed








section \<open>The fields of the result record\<close>









section \<open>Properties of the Hurst estimator\<close>






section \<open>The parameters of the entry point\<close>




end
